theory Spec2Isabelle
  imports Main "HOL-Library.Sublist"
begin

section \<open>The terminal formatter of logxi (v1/happyDevFormatter.go)\<close>

text \<open>
  A shallow embedding of \<^verbatim>\<open>happyDevFormatter.go\<close>. Go strings are byte strings and are
  modelled as \<^typ>\<open>string\<close>; \<^verbatim>\<open>len\<close> is \<^const>\<open>length\<close>. Go's \<^verbatim>\<open>int\<close> is modelled
  as \<^typ>\<open>int\<close>: the only arithmetic is on column positions and string lengths, which stay
  far below the 64-bit range.
\<close>

subsection \<open>Strings\<close>

definition LF :: char where
  "LF = CHR 0x0A"

definition ESC :: char where
  "ESC = CHR 0x1B"

text \<open>
  \<^verbatim>\<open>strings.Split(s, sep)\<close> for a non-empty separator: the pieces of \<open>s\<close> between the
  non-overlapping occurrences of \<open>sep\<close>, found left to right; always at least one piece.
  Both calls of the source pass a one-byte separator.
\<close>

function split_from :: "string \<Rightarrow> string \<Rightarrow> string \<Rightarrow> string list" where
  "split_from sep acc [] = [rev acc]"
| "split_from sep acc (c # cs) =
     (if sep \<noteq> [] \<and> prefix sep (c # cs)
      then rev acc # split_from sep [] (drop (length sep) (c # cs))
      else split_from sep (c # acc) cs)"
  by pat_completeness auto
termination
  by (relation "measure (\<lambda>(sep, acc, s). length s)") auto

definition strings_Split :: "string \<Rightarrow> string \<Rightarrow> string list" where
  "strings_Split s sep = split_from sep [] s"

text \<open>
  \<^verbatim>\<open>strings.Trim(s, cutset)\<close>: all leading and trailing bytes of \<open>s\<close> that occur in
  \<open>cutset\<close> removed (the cutset of the source, newline and space, is ASCII).
\<close>

definition strings_Trim :: "string \<Rightarrow> string \<Rightarrow> string" where
  "strings_Trim s cutset =
     rev (dropWhile (\<lambda>c. c \<in> set cutset) (rev (dropWhile (\<lambda>c. c \<in> set cutset) s)))"

subsection \<open>Colour themes\<close>

record colorScheme =
  Key :: string
  Value :: string
  Misc :: string
  Source :: string
  Debug :: string
  Info :: string
  Warn :: string
  Error :: string

text \<open>A Go map read with \<^verbatim>\<open>m[key]\<close>: a missing key reads as the empty string.\<close>

definition lookup_str :: "(string \<rightharpoonup> string) \<Rightarrow> string \<Rightarrow> string" where
  "lookup_str m key = (case m key of None \<Rightarrow> [] | Some v \<Rightarrow> v)"

text \<open>The loop of \<^verbatim>\<open>parseKVList\<close> over the pairs; a later pair overwrites an earlier one.\<close>

fun kvLoop :: "(string \<rightharpoonup> string) \<Rightarrow> string list \<Rightarrow> (string \<rightharpoonup> string)" where
  "kvLoop m [] = m"
| "kvLoop m (pair # pairs) =
     (if pair = [] then kvLoop m pairs
      else (case strings_Split pair ''='' of
              [k] \<Rightarrow> kvLoop (m(k \<mapsto> [])) pairs
            | [k, v] \<Rightarrow> kvLoop (m(k \<mapsto> v)) pairs
            | _ \<Rightarrow> kvLoop m pairs))"

text \<open>
  \<^verbatim>\<open>parseKVList\<close>. The source returns nil when \<^verbatim>\<open>strings.Split\<close> yields no piece, which
  never happens for a non-empty separator; reading a nil map gives the empty string as well.
\<close>

definition parseKVList :: "string \<Rightarrow> string \<Rightarrow> (string \<rightharpoonup> string)" where
  "parseKVList s separator =
     (let pairs = strings_Split s separator in
      if length pairs = 0 then Map.empty else kvLoop Map.empty pairs)"

text \<open>
  The closure \<^verbatim>\<open>color\<close> of \<^verbatim>\<open>parseTheme\<close>; it reads the variable \<^verbatim>\<open>wildcard\<close>, passed
  here with the value it has at the call (named \<open>color_of\<close>, as the formatter's
  functions have parameters called \<open>color\<close>). \<open>ColorCode\<close> is \<^verbatim>\<open>ansi.ColorCode\<close> of the
  library \<^verbatim>\<open>github.com/mgutz/ansi\<close>, a parameter of the model.
\<close>

definition color_of :: "(string \<Rightarrow> string) \<Rightarrow> (string \<rightharpoonup> string) \<Rightarrow> string \<Rightarrow> string \<Rightarrow> string" where
  "color_of ColorCode m wildcard key =
     (let style = lookup_str m key;
          c = ColorCode style
      in if c = [] then wildcard else c)"

text \<open>\<^verbatim>\<open>parseTheme\<close>; \<open>Reset\<close> is \<^verbatim>\<open>ansi.Reset\<close>.\<close>

definition parseTheme :: "(string \<Rightarrow> string) \<Rightarrow> string \<Rightarrow> string \<Rightarrow> colorScheme" where
  "parseTheme ColorCode Reset theme =
     (let m = parseKVList theme '','';
          cs = \<lparr>Key = [], Value = [], Misc = [], Source = [],
                Debug = [], Info = [], Warn = [], Error = []\<rparr>;
          wildcard = color_of ColorCode m [] ''*'';
          cs = (if wildcard \<noteq> Reset
                then cs\<lparr>Key := wildcard, Value := wildcard, Misc := wildcard,
                        Source := wildcard, Debug := wildcard, Warn := wildcard,
                        Info := wildcard, Error := wildcard\<rparr>
                else cs);
          cs = cs\<lparr>Key := color_of ColorCode m wildcard ''key''\<rparr>;
          cs = cs\<lparr>Value := color_of ColorCode m wildcard ''value''\<rparr>;
          cs = cs\<lparr>Misc := color_of ColorCode m wildcard ''misc''\<rparr>;
          cs = cs\<lparr>Source := color_of ColorCode m wildcard ''source''\<rparr>;
          cs = cs\<lparr>Debug := color_of ColorCode m wildcard ''DBG''\<rparr>;
          cs = cs\<lparr>Warn := color_of ColorCode m wildcard ''WRN''\<rparr>;
          cs = cs\<lparr>Info := color_of ColorCode m wildcard ''INF''\<rparr>;
          cs = cs\<lparr>Error := color_of ColorCode m wildcard ''ERR''\<rparr>
      in cs)"

subsection \<open>Values and formatting verbs\<close>

text \<open>
  The dynamically typed values (\<^verbatim>\<open>interface{}\<close>) a log call can carry: strings, integers,
  booleans, nil, a plain \<^verbatim>\<open>error\<close> with its message, and a \<^verbatim>\<open>*errors.Error\<close> of
  \<^verbatim>\<open>github.com/go-errors/errors\<close> with its message and its captured stack.
\<close>

datatype val =
    VString string
  | VInt int
  | VBool bool
  | VNil
  | VError string
  | VStackError string string

definition digit_char :: "nat \<Rightarrow> char" where
  "digit_char n = ''0123456789'' ! (n mod 10)"

fun string_of_nat :: "nat \<Rightarrow> string" where
  "string_of_nat n =
     (if n < 10 then [digit_char n] else string_of_nat (n div 10) @ [digit_char (n mod 10)])"





subsection \<open>Package state and collaborators\<close>

text \<open>A stack frame (\<^verbatim>\<open>stack.Call\<close>) is identified by its program counter.\<close>

type_synonym frame = nat

text \<open>
  What the formatter reads but this file does not define: the package variables
  (\<open>theme\<close>, \<open>indent\<close>, \<open>maxCol\<close>, \<open>isPretty\<close>, \<open>contextLines\<close>), the constants of other
  files (\<open>Separator\<close>, the reserved keys, the level numbers), \<^verbatim>\<open>ansi.Reset\<close>, and the
  collaborators, each a parameter: \<open>badKeyAtIndex\<close>, \<open>json_Marshal\<close> (\<^verbatim>\<open>json.Marshal\<close> of a
  string: an error message or the encoding), \<open>LogEntry\<close> (the JSON formatter's field map),
  \<open>trace\<close> (the trimmed call stack at the call), \<open>ciString\<close>
  (\<^verbatim>\<open>newCallstackInfo(frame, n).String(color, sourceColor)\<close>) and \<open>wrapStack\<close> (the stack
  text \<^verbatim>\<open>errors.Wrap\<close> captures for a plain error).
\<close>

record env =
  theme :: colorScheme
  indent :: string
  maxCol :: int
  isPretty :: bool
  contextLines :: int
  Separator :: string
  Reset :: string
  timeKey :: string
  levelKey :: string
  nameKey :: string
  messageKey :: string
  reservedKeys :: "string list"
  LevelDebug :: int
  LevelInfo :: int
  LevelWarn :: int
  badKeyAtIndex :: "nat \<Rightarrow> string"
  json_Marshal :: "string \<Rightarrow> string + string"
  LogEntry :: "int \<Rightarrow> string \<Rightarrow> val list \<Rightarrow> (string \<rightharpoonup> val)"
  trace :: "frame list"
  ciString :: "frame \<Rightarrow> int \<Rightarrow> string \<Rightarrow> string \<Rightarrow> string"
  wrapStack :: string

definition assignmentChar :: string where
  "assignmentChar = '': ''"





subsection \<open>The column-tracking writer\<close>

text \<open>
  The output buffer (\<^verbatim>\<open>*bytes.Buffer\<close>) and the formatter's column counter \<^verbatim>\<open>hd.col\<close>,
  threaded through every write.
\<close>

record writer =
  buf :: string
  col :: int

text \<open>\<^verbatim>\<open>buf.WriteString(s)\<close>: the column counter is untouched.\<close>

definition buf_WriteString :: "writer \<Rightarrow> string \<Rightarrow> writer" where
  "buf_WriteString s str = s\<lparr>buf := buf s @ str\<rparr>"

definition writeString :: "writer \<Rightarrow> string \<Rightarrow> writer" where
  "writeString s str = (buf_WriteString s str)\<lparr>col := col s + int (length str)\<rparr>"

definition writeKey :: "env \<Rightarrow> writer \<Rightarrow> string \<Rightarrow> writer" where
  "writeKey e s key =
     (let s = writeString s (Separator e) in
      if key = [] then s
      else (let s = buf_WriteString s (Key (theme e));
                s = writeString s key;
                s = writeString s assignmentChar
            in buf_WriteString s (Reset e)))"

definition offset :: "env \<Rightarrow> writer \<Rightarrow> string \<Rightarrow> string \<Rightarrow> string \<Rightarrow> writer" where
  "offset e s color key value =
     (let val = strings_Trim value [LF, CHR '' ''];
          s = (if (isPretty e \<and> key \<noteq> []) \<or>
                  col s + int (length key) + 1 + int (length val) \<ge> maxCol e
               then writeString ((buf_WriteString s [LF])\<lparr>col := 0\<rparr>) (indent e)
               else s);
          s = writeKey e s key;
          s = (if color \<noteq> [] then buf_WriteString s color else s);
          s = writeString s val
      in if color \<noteq> [] then buf_WriteString s (Reset e) else s)"




subsection \<open>Call-site context\<close>

text \<open>
  The warn loop of \<^verbatim>\<open>getLevelContext\<close>: \<open>i\<close> is the index of the frame at the head of the
  list; the first frame at an index of 4 or more is formatted and the loop breaks.
\<close>

fun warnLoop :: "env \<Rightarrow> nat \<Rightarrow> frame list \<Rightarrow> string" where
  "warnLoop e i [] = []"
| "warnLoop e i (f # fs) =
     (if i < 4 then warnLoop e (Suc i) fs
      else ciString e f (- 1) (Warn (theme e)) (Source (theme e)))"

text \<open>
  The loop of the default branch, with the contents of \<^verbatim>\<open>errbuf\<close> as accumulator (the
  counter \<^verbatim>\<open>lines\<close> of the source is never read and is left out).
\<close>

fun errorLoop :: "env \<Rightarrow> nat \<Rightarrow> frame list \<Rightarrow> string \<Rightarrow> string" where
  "errorLoop e i [] errbuf = errbuf"
| "errorLoop e i (f # fs) errbuf =
     (if i < 3 then errorLoop e (Suc i) fs errbuf
      else (let ctx = ciString e f (contextLines e) (Error (theme e)) (Source (theme e)) in
            if ctx = [] then errorLoop e (Suc i) fs errbuf
            else errorLoop e (Suc i) fs (errbuf @ ctx @ [LF])))"

definition getLevelContext :: "env \<Rightarrow> int \<Rightarrow> string \<times> string" where
  "getLevelContext e level =
     (if level = LevelDebug e then ([], Debug (theme e))
      else if level = LevelInfo e then ([], Info (theme e))
      else if level = LevelWarn e then (warnLoop e 0 (trace e), Warn (theme e))
      else (errorLoop e 0 (trace e) [], Error (theme e)))"

subsection \<open>Format\<close>

definition DQ :: char where
  "DQ = CHR 0x22"









subsection \<open>Notions used to state the properties\<close>

text \<open>The text one field contributes to the buffer after the optional line break and indent.\<close>

definition fieldText :: "env \<Rightarrow> string \<Rightarrow> string \<Rightarrow> string \<Rightarrow> string" where
  "fieldText e color key v =
     Separator e @ (if key = [] then [] else Key (theme e) @ key @ assignmentChar @ Reset e) @
     color @ v @ (if color = [] then [] else Reset e)"


text \<open>The keys at the even positions of an argument list.\<close>

fun keysOf :: "val list \<Rightarrow> val list" where
  "keysOf [] = []"
| "keysOf [k] = [k]"
| "keysOf (k # v # rest) = k # keysOf rest"


subsection \<open>An example configuration\<close>

text \<open>
  A concrete environment for the examples: the reset sequence and two colour codes of the
  \<^verbatim>\<open>ansi\<close> library, single-letter reserved keys, a stack of six frames, and stand-ins for the
  collaborators (a JSON string encoder for ASCII keys, a field map that holds every pair and
  the imbalance sentinel of the README, a call-site formatter that prints the frame number).
\<close>

definition ansi_Reset :: string where
  "ansi_Reset = ESC # ''[0m''"

definition ansi_blue :: string where
  "ansi_blue = ESC # ''[0;34m''"

definition ansi_red :: string where
  "ansi_red = ESC # ''[0;31m''"

definition demo_ColorCode :: "string \<Rightarrow> string" where
  "demo_ColorCode style =
     (if style = ''blue'' then ansi_blue
      else if style = ''red'' then ansi_red
      else [])"

definition hex_digit :: "nat \<Rightarrow> char" where
  "hex_digit n = ''0123456789abcdef'' ! (n mod 16)"

definition demo_escape :: "char \<Rightarrow> string" where
  "demo_escape c =
     (if c = DQ then [CHR 0x5C, DQ]
      else if c = CHR 0x5C then [CHR 0x5C, CHR 0x5C]
      else if (of_char c :: nat) < 32 \<or> c \<in> {CHR ''<'', CHR ''>'', CHR ''&''}
      then CHR 0x5C # ''u00'' @ [hex_digit (of_char c div 16), hex_digit (of_char c)]
      else [c])"

definition demo_Marshal :: "string \<Rightarrow> string + string" where
  "demo_Marshal key = Inr ([DQ] @ concat (map demo_escape key) @ [DQ])"

definition demo_badKeyAtIndex :: "nat \<Rightarrow> string" where
  "demo_badKeyAtIndex i = ''BAD_KEY_AT_INDEX_'' @ string_of_nat i"

fun demo_fields :: "nat \<Rightarrow> val list \<Rightarrow> (string \<times> val) list" where
  "demo_fields i [] = []"
| "demo_fields i [k] = [(''IMBALANCED_PAIRS=>'', k)]"
| "demo_fields i (k # v # rest) =
     ((case k of VString key \<Rightarrow> key | _ \<Rightarrow> demo_badKeyAtIndex i), v) # demo_fields (i + 2) rest"

definition demo_levelName :: "int \<Rightarrow> string" where
  "demo_levelName level =
     (if level = 7 then ''DBG'' else if level = 6 then ''INF''
      else if level = 4 then ''WRN'' else ''ERR'')"

definition demo_LogEntry :: "int \<Rightarrow> string \<Rightarrow> val list \<Rightarrow> (string \<rightharpoonup> val)" where
  "demo_LogEntry level msg args =
     map_of ([(''t'', VString ''12:00:00''), (''l'', VString (demo_levelName level)),
              (''n'', VString ''demo''), (''m'', VString msg)] @ demo_fields 0 args)"

definition demo_ciString :: "frame \<Rightarrow> int \<Rightarrow> string \<Rightarrow> string \<Rightarrow> string" where
  "demo_ciString f n c sc = ''main.go:'' @ string_of_nat f"

definition demoEnv :: env where
  "demoEnv =
     \<lparr>theme = parseTheme demo_ColorCode ansi_Reset ''*=blue,key=red'',
      indent = ''  '', maxCol = 80, isPretty = False, contextLines = 2,
      Separator = '' '', Reset = ansi_Reset,
      timeKey = ''t'', levelKey = ''l'', nameKey = ''n'', messageKey = ''m'',
      reservedKeys = [''t'', ''l'', ''n'', ''m''],
      LevelDebug = 7, LevelInfo = 6, LevelWarn = 4,
      badKeyAtIndex = demo_badKeyAtIndex,
      json_Marshal = demo_Marshal,
      LogEntry = demo_LogEntry,
      trace = [0, 1, 2, 3, 4, 5],
      ciString = demo_ciString,
      wrapStack = ''main.go:1''\<rparr>"


section \<open>Properties\<close>

subsection \<open>Auxiliary facts\<close>

lemma parseKVList_example:
  "parseKVList ''*=blue,key=red'' '','' = [''*'' \<mapsto> ''blue'', ''key'' \<mapsto> ''red'']"
  by (simp add: parseKVList_def strings_Split_def)

lemma parseTheme_slots:
  "parseTheme CC R spec =
     (let m = parseKVList spec '','';
          w = CC (lookup_str m ''*'');
          pick = (\<lambda>k. if CC (lookup_str m k) = [] then w else CC (lookup_str m k))
      in \<lparr>Key = pick ''key'', Value = pick ''value'', Misc = pick ''misc'',
          Source = pick ''source'', Debug = pick ''DBG'', Info = pick ''INF'',
          Warn = pick ''WRN'', Error = pick ''ERR''\<rparr>)"
  by (simp add: parseTheme_def color_of_def Let_def)


lemma warnLoop_drop:
  "warnLoop e i fs =
     (case drop (4 - i) fs of [] \<Rightarrow> []
      | f # rest \<Rightarrow> ciString e f (- 1) (Warn (theme e)) (Source (theme e)))"
proof (induction fs arbitrary: i)
  case Nil
  show ?case by simp
next
  case (Cons f fs)
  show ?case
  proof (cases "i < 4")
    case True
    then have "4 - i = Suc (4 - Suc i)" by simp
    then show ?thesis using True Cons.IH [of "Suc i"] by simp
  next
    case False
    then show ?thesis by simp
  qed
qed

lemma errorLoop_filter:
  "errorLoop e i fs errbuf =
     errbuf @ concat (map (\<lambda>ctx. ctx @ [LF]) (filter (\<lambda>ctx. ctx \<noteq> [])
       (map (\<lambda>f. ciString e f (contextLines e) (Error (theme e)) (Source (theme e)))
          (drop (3 - i) fs))))"
proof (induction fs arbitrary: i errbuf)
  case Nil
  show ?case by simp
next
  case (Cons f fs)
  show ?case
  proof (cases "i < 3")
    case True
    then have "3 - i = Suc (3 - Suc i)" by simp
    then show ?thesis using True Cons.IH [of "Suc i" errbuf] by simp
  next
    case False
    then have d: "3 - i = 0" "3 - Suc i = 0" by simp_all
    show ?thesis using False by (simp add: Cons.IH d Let_def)
  qed
qed

subsection \<open>Theme parsing\<close>

text \<open>
  Claim C5. Wildcard precedence of \<open>parseTheme\<close>: every slot of the parsed theme is the
  colour code of the slot's own style when that code is not empty, and the wildcard's code
  otherwise, whether or not the wildcard equals the reset sequence; so a slot-specific entry
  that resolves to a code always wins and a slot that resolves to nothing falls back to the
  wildcard. For the specification \<^verbatim>\<open>*=blue,key=red\<close>, with a resolver that maps the empty
  style to nothing and \<^verbatim>\<open>red\<close> to a code, the key slot is red's code and the seven other
  slots are blue's code.
\<close>

theorem parseTheme_wildcard_precedence:
  "parseTheme CC R spec =
     (let m = parseKVList spec '','';
          w = CC (lookup_str m ''*'');
          pick = (\<lambda>k. if CC (lookup_str m k) = [] then w else CC (lookup_str m k))
      in \<lparr>Key = pick ''key'', Value = pick ''value'', Misc = pick ''misc'',
          Source = pick ''source'', Debug = pick ''DBG'', Info = pick ''INF'',
          Warn = pick ''WRN'', Error = pick ''ERR''\<rparr>) \<and>
   (CC [] = [] \<longrightarrow> CC ''red'' \<noteq> [] \<longrightarrow>
      parseTheme CC R ''*=blue,key=red'' =
        \<lparr>Key = CC ''red'', Value = CC ''blue'', Misc = CC ''blue'', Source = CC ''blue'',
         Debug = CC ''blue'', Info = CC ''blue'', Warn = CC ''blue'', Error = CC ''blue''\<rparr>)"
proof (intro conjI impI)
  show "parseTheme CC R spec =
     (let m = parseKVList spec '','';
          w = CC (lookup_str m ''*'');
          pick = (\<lambda>k. if CC (lookup_str m k) = [] then w else CC (lookup_str m k))
      in \<lparr>Key = pick ''key'', Value = pick ''value'', Misc = pick ''misc'',
          Source = pick ''source'', Debug = pick ''DBG'', Info = pick ''INF'',
          Warn = pick ''WRN'', Error = pick ''ERR''\<rparr>)"
    by (rule parseTheme_slots)
next
  assume "CC [] = []" "CC ''red'' \<noteq> []"
  then show "parseTheme CC R ''*=blue,key=red'' =
        \<lparr>Key = CC ''red'', Value = CC ''blue'', Misc = CC ''blue'', Source = CC ''blue'',
         Debug = CC ''blue'', Info = CC ''blue'', Warn = CC ''blue'', Error = CC ''blue''\<rparr>"
    by (simp add: parseTheme_slots parseKVList_example lookup_str_def Let_def)
qed

theorem parseTheme_wildcard_precedence_witness:
  "demo_ColorCode [] = [] \<and> demo_ColorCode ''red'' \<noteq> [] \<and>
   parseTheme demo_ColorCode ansi_Reset ''*=blue,key=red'' =
     \<lparr>Key = ansi_red, Value = ansi_blue, Misc = ansi_blue, Source = ansi_blue,
      Debug = ansi_blue, Info = ansi_blue, Warn = ansi_blue, Error = ansi_blue\<rparr>"
proof -
  have h1: "demo_ColorCode [] = []" and h2: "demo_ColorCode ''red'' \<noteq> []"
    by (simp_all add: demo_ColorCode_def ansi_red_def)
  from parseTheme_wildcard_precedence [of demo_ColorCode ansi_Reset "[]"] h1 h2
  have "parseTheme demo_ColorCode ansi_Reset ''*=blue,key=red'' =
        \<lparr>Key = demo_ColorCode ''red'', Value = demo_ColorCode ''blue'', Misc = demo_ColorCode ''blue'', Source = demo_ColorCode ''blue'',
         Debug = demo_ColorCode ''blue'', Info = demo_ColorCode ''blue'', Warn = demo_ColorCode ''blue'', Error = demo_ColorCode ''blue''\<rparr>"
    by blast
  then show ?thesis using h1 h2 by (simp add: demo_ColorCode_def)
qed

subsection \<open>Call-site context\<close>

text \<open>
  Claim C6. \<open>getLevelContext\<close> treats the levels differently: debug and info walk no stack;
  warn formats only the frame at index 4, the first one past the four skipped frames, and its
  context is empty when the stack has no such frame; every other level (error, fatal) formats
  all frames from index 3 on, drops the frames whose context is empty without stopping, and
  concatenates the remaining contexts, each followed by a line break.
\<close>

theorem getLevelContext_asymmetric:
  "getLevelContext e level =
     (if level = LevelDebug e then ([], Debug (theme e))
      else if level = LevelInfo e then ([], Info (theme e))
      else if level = LevelWarn e then
        (case drop 4 (trace e) of
           [] \<Rightarrow> []
         | f # rest \<Rightarrow> ciString e f (- 1) (Warn (theme e)) (Source (theme e)),
         Warn (theme e))
      else
        (concat (map (\<lambda>ctx. ctx @ [LF]) (filter (\<lambda>ctx. ctx \<noteq> [])
           (map (\<lambda>f. ciString e f (contextLines e) (Error (theme e)) (Source (theme e)))
              (drop 3 (trace e))))),
         Error (theme e)))"
  by (simp add: getLevelContext_def warnLoop_drop errorLoop_filter)

subsection \<open>The column-aware write\<close>

lemma strings_Trim_split:
  "\<exists>pre post. s = pre @ strings_Trim s cutset @ post \<and> set pre \<subseteq> set cutset \<and> set post \<subseteq> set cutset"
proof -
  let ?P = "\<lambda>c. c \<in> set cutset"
  let ?d = "dropWhile ?P s"
  have 1: "s = takeWhile ?P s @ ?d" by simp
  have "rev (takeWhile ?P (rev ?d) @ dropWhile ?P (rev ?d)) = rev (rev ?d)"
    by (simp only: takeWhile_dropWhile_id)
  then have "rev (dropWhile ?P (rev ?d)) @ rev (takeWhile ?P (rev ?d)) = ?d"
    by (simp only: rev_append rev_rev_ident)
  then have 2: "?d = strings_Trim s cutset @ rev (takeWhile ?P (rev ?d))"
    by (simp only: strings_Trim_def)
  have 3: "set (takeWhile ?P s) \<subseteq> set cutset"
    by (auto dest: set_takeWhileD)
  have 4: "set (rev (takeWhile ?P (rev ?d))) \<subseteq> set cutset"
    by (auto dest: set_takeWhileD)
  from 1 2 have "s = takeWhile ?P s @ strings_Trim s cutset @ rev (takeWhile ?P (rev ?d))"
    by simp
  with 3 4 show ?thesis by blast
qed

lemma strings_Trim_ends:
  "strings_Trim s cutset = [] \<or>
   (hd (strings_Trim s cutset) \<notin> set cutset \<and> last (strings_Trim s cutset) \<notin> set cutset)"
proof (cases "strings_Trim s cutset = []")
  case True
  then show ?thesis by simp
next
  case False
  let ?P = "\<lambda>c. c \<in> set cutset"
  let ?d = "dropWhile ?P s"
  let ?r = "dropWhile ?P (rev ?d)"
  have t: "strings_Trim s cutset = rev ?r" by (simp add: strings_Trim_def)
  with False have rne: "?r \<noteq> []" by simp
  then have "\<not> ?P (hd ?r)" by (rule hd_dropWhile)
  then have l: "last (strings_Trim s cutset) \<notin> set cutset"
    using rne by (simp add: t last_rev)
  have dne: "?d \<noteq> []"
  proof
    assume a: "?d = []"
    have "?r = []" unfolding a by simp
    with rne show False by simp
  qed
  then have hdd: "\<not> ?P (hd ?d)" by (rule hd_dropWhile)
  have "rev ?d = takeWhile ?P (rev ?d) @ ?r" by simp
  then have "last (rev ?d) = last ?r" using rne by (metis last_appendR)
  then have "hd ?d = last ?r" using dne by (simp add: last_rev)
  then have "hd (strings_Trim s cutset) = hd ?d" using rne by (simp add: t hd_rev)
  with hdd l False show ?thesis by simp
qed

lemma offset_eq:
  "offset e s color key value =
     (let v = strings_Trim value [LF, CHR '' ''];
          wrap = ((isPretty e \<and> key \<noteq> []) \<or>
                  maxCol e \<le> col s + int (length key) + 1 + int (length v))
      in \<lparr>buf = buf s @ (if wrap then LF # indent e else []) @ fieldText e color key v,
          col = (if wrap then int (length (indent e)) else col s) +
                int (length (Separator e)) +
                (if key = [] then 0 else int (length key) + 2) + int (length v)\<rparr>)"
  by (simp add: offset_def writeKey_def writeString_def buf_WriteString_def fieldText_def
      assignmentChar_def Let_def)

text \<open>
  Claim C4. In \<open>offset\<close> the value is first trimmed of the line breaks and spaces around it
  (the trimmed text is the value without a prefix and a suffix made of those two bytes, and
  it neither starts nor ends with one of them). A line break and the indent are written
  before the key exactly when pretty mode is on and the key is not empty, or the cursor on
  entry plus the key's length plus one plus the trimmed value's length is at least the
  maximum column; the test reads the cursor as it is before anything is written, and after
  wrapping the cursor is the indent's length. The field's text follows.
\<close>

theorem offset_wraps_before_writing:
  "\<exists>pre post.
     value = pre @ strings_Trim value [LF, CHR '' ''] @ post \<and>
     set pre \<subseteq> {LF, CHR '' ''} \<and> set post \<subseteq> {LF, CHR '' ''} \<and>
     (strings_Trim value [LF, CHR '' ''] = [] \<or>
      (hd (strings_Trim value [LF, CHR '' '']) \<notin> {LF, CHR '' ''} \<and>
       last (strings_Trim value [LF, CHR '' '']) \<notin> {LF, CHR '' ''})) \<and>
     offset e s color key value =
       (let v = strings_Trim value [LF, CHR '' ''];
            wrap = ((isPretty e \<and> key \<noteq> []) \<or>
                    maxCol e \<le> col s + int (length key) + 1 + int (length v));
            s1 = (if wrap then \<lparr>buf = buf s @ [LF] @ indent e, col = int (length (indent e))\<rparr>
                  else s)
        in \<lparr>buf = buf s1 @ fieldText e color key v,
            col = col s1 + int (length (Separator e)) +
                  (if key = [] then 0 else int (length key) + 2) + int (length v)\<rparr>)"
proof -
  obtain pre post where
    "value = pre @ strings_Trim value [LF, CHR '' ''] @ post"
    "set pre \<subseteq> set [LF, CHR '' '']" "set post \<subseteq> set [LF, CHR '' '']"
    using strings_Trim_split by blast
  moreover have "strings_Trim value [LF, CHR '' ''] = [] \<or>
      (hd (strings_Trim value [LF, CHR '' '']) \<notin> {LF, CHR '' ''} \<and>
       last (strings_Trim value [LF, CHR '' '']) \<notin> {LF, CHR '' ''})"
    using strings_Trim_ends [of "value" "[LF, CHR '' '']"] by simp
  moreover have "offset e s color key value =
       (let v = strings_Trim value [LF, CHR '' ''];
            wrap = ((isPretty e \<and> key \<noteq> []) \<or>
                    maxCol e \<le> col s + int (length key) + 1 + int (length v));
            s1 = (if wrap then \<lparr>buf = buf s @ [LF] @ indent e, col = int (length (indent e))\<rparr>
                  else s)
        in \<lparr>buf = buf s1 @ fieldText e color key v,
            col = col s1 + int (length (Separator e)) +
                  (if key = [] then 0 else int (length key) + 2) + int (length v)\<rparr>)"
    by (simp add: offset_eq Let_def)
  ultimately show ?thesis by simp blast
qed

subsection \<open>The cursor and the colours\<close>












subsection \<open>Key validation\<close>








lemma demo_fields:
  "indent demoEnv = ''  ''" "maxCol demoEnv = 80" "isPretty demoEnv = False"
  "contextLines demoEnv = 2" "Separator demoEnv = '' ''" "Reset demoEnv = ansi_Reset"
  "timeKey demoEnv = ''t''" "levelKey demoEnv = ''l''" "nameKey demoEnv = ''n''"
  "messageKey demoEnv = ''m''" "reservedKeys demoEnv = [''t'', ''l'', ''n'', ''m'']"
  "LevelDebug demoEnv = 7" "LevelInfo demoEnv = 6" "LevelWarn demoEnv = 4"
  "badKeyAtIndex demoEnv = demo_badKeyAtIndex" "json_Marshal demoEnv = demo_Marshal"
  "LogEntry demoEnv = demo_LogEntry" "trace demoEnv = [0, 1, 2, 3, 4, 5]"
  "ciString demoEnv = demo_ciString" "wrapStack demoEnv = ''main.go:1''"
  by (simp_all add: demoEnv_def)











end
